theory Spec2Isabelle
  imports Main "HOL-Library.Word" "HOL-Library.AList"
begin

section \<open>Strings, accession codes\<close>

text \<open>
  Python \<open>str\<close> values are modelled as \<open>string\<close>. The pattern of
  \<open>re.fullmatch(r"[0-9A-Za-z]{4}", pdb_id or "")\<close> names three explicit ASCII ranges,
  so a character outside ASCII never matches it.
\<close>

type_synonym bytes = "8 word list"

definition is_alnum :: "char \<Rightarrow> bool" where
  "is_alnum c =
     (let n = (of_char c :: nat)
      in (48 \<le> n \<and> n \<le> 57) \<or> (65 \<le> n \<and> n \<le> 90) \<or> (97 \<le> n \<and> n \<le> 122))"

definition fullmatch_pdb :: "string \<Rightarrow> bool" where
  "fullmatch_pdb s = (length s = 4 \<and> list_all is_alnum s)"

text \<open>
  \<open>str.upper()\<close>, as it acts on the characters that pass the pattern: the letters
  \<open>a\<close> to \<open>z\<close> move to \<open>A\<close> to \<open>Z\<close>, digits and capitals stay. The source calls
  \<open>upper\<close> only after the pattern has matched.
\<close>

definition upper_char :: "char \<Rightarrow> char" where
  "upper_char c =
     (let n = (of_char c :: nat)
      in if 97 \<le> n \<and> n \<le> 122 then char_of (n - 32) else c)"

definition upper :: "string \<Rightarrow> string" where
  "upper s = map upper_char s"

text \<open>\<open>str.strip()\<close>: the white space of Python among the 8-bit characters.\<close>

definition is_space :: "char \<Rightarrow> bool" where
  "is_space c =
     (let n = (of_char c :: nat)
      in (9 \<le> n \<and> n \<le> 13) \<or> (28 \<le> n \<and> n \<le> 32) \<or> n = 133 \<or> n = 160)"

definition strip :: "string \<Rightarrow> string" where
  "strip s = rev (dropWhile is_space (rev (dropWhile is_space s)))"

section \<open>Paths\<close>

text \<open>
  A \<open>pathlib\<close> path on POSIX: whether it is anchored at the root, and its components.
  \<open>Path\<close> parses a string: it splits at the separator and drops empty components and
  single dots. (A path that starts with exactly two slashes keeps them in \<open>pathlib\<close>;
  that root is not told apart from the plain root here.)
\<close>

datatype path = PosixPath (absolute: bool) (parts: "string list")

fun split_sep :: "string \<Rightarrow> string list" where
  "split_sep [] = [[]]"
| "split_sep (c # cs) =
     (if c = CHR ''/'' then [] # split_sep cs
      else (case split_sep cs of [] \<Rightarrow> [[c]] | x # xs \<Rightarrow> (c # x) # xs))"

definition Path :: "string \<Rightarrow> path" where
  "Path s = PosixPath (take 1 s = ''/'')
                      (filter (\<lambda>p. p \<noteq> [] \<and> p \<noteq> ''.'') (split_sep s))"

text \<open>\<open>p / q\<close>: an absolute right operand replaces the left one.\<close>

definition joinpath :: "path \<Rightarrow> path \<Rightarrow> path" where
  "joinpath p q = (if absolute q then q else PosixPath (absolute p) (parts p @ parts q))"

definition path_name :: "path \<Rightarrow> string" where
  "path_name p = (if parts p = [] then [] else last (parts p))"

definition parent :: "path \<Rightarrow> path" where
  "parent p = PosixPath (absolute p) (butlast (parts p))"

text \<open>
  \<open>Path.suffix\<close>: the final component from its last dot on, unless that dot is its
  first or its last character (\<open>i = name.rfind('.')\<close>, \<open>0 < i < len(name) - 1\<close>).
\<close>

definition name_suffix :: "string \<Rightarrow> string" where
  "name_suffix nm =
     (let r = takeWhile (\<lambda>c. c \<noteq> CHR ''.'') (rev nm);
          i = length nm - length r - 1
      in if length r < length nm \<and> 0 < i \<and> i < length nm - 1 then drop i nm else [])"

definition suffix :: "path \<Rightarrow> string" where
  "suffix p = name_suffix (path_name p)"

text \<open>
  \<open>Path.with_suffix\<close>: the old suffix of the final component is cut off and the new
  one appended. (It raises \<open>ValueError\<close> on a path without a final component; the
  source applies it to \<open>out_dir / f"{pdb_id}.pdb"\<close> only, which has one.)
\<close>

definition with_suffix :: "path \<Rightarrow> string \<Rightarrow> path" where
  "with_suffix p sfx =
     (let nm = path_name p;
          stem = take (length nm - length (suffix p)) nm
      in PosixPath (absolute p) (butlast (parts p) @ [stem @ sfx]))"

section \<open>The world: file system and network\<close>

text \<open>
  The state the program acts on: the regular files with their contents, the
  directories, and the log of the HTTP GET requests issued so far. Paths are compared
  as they are written (no links, no case folding, no \<open>..\<close> resolution), and a path is
  taken to name either a file or a directory. Permissions and full disks are not part
  of the model.

  The environment is what the program cannot control: what the server answers to the
  \<open>n\<close>-th request for a URL, and what \<open>pandas.read_csv\<close> makes of a file's bytes.
  An answer is the whole body (\<open>Complete\<close>), an HTTP error status (\<open>HttpFail\<close>), no
  connection at all (\<open>ConnFail\<close>), a connection that breaks with an exception after
  some bytes (\<open>Broken\<close>), or a peer that closes the connection before the announced
  length is reached (\<open>Truncated\<close>, with the bytes that arrived).
\<close>

datatype error =
    ValueError string
  | TypeError
  | FileNotFoundError string
  | HTTPError nat
  | URLError string
  | StreamError string
  | UnboundLocalError string
  | KeyError string
  | IsADirectoryError
  | SameFileError
  | ParserError string

datatype cell = Str string | NaN

type_synonym dataframe = "(string \<times> cell list) list"

datatype response =
    Complete bytes
  | HttpFail nat
  | ConnFail string
  | Broken bytes string
  | Truncated bytes

record env =
  respond :: "nat \<Rightarrow> string \<Rightarrow> response"
  parse_csv :: "bytes \<Rightarrow> error + dataframe"

record world =
  files :: "path \<rightharpoonup> bytes"
  dirs :: "path set"
  requests :: "string list"

definition is_dir :: "world \<Rightarrow> path \<Rightarrow> bool" where
  "is_dir w p = (parts p = [] \<or> p \<in> dirs w)"

definition exists_path :: "world \<Rightarrow> path \<Rightarrow> bool" where
  "exists_path w p = (case files w p of Some _ \<Rightarrow> True | None \<Rightarrow> is_dir w p)"

text \<open>\<open>Path.mkdir(parents=True, exist_ok=True)\<close>: the directory and all its ancestors.\<close>

definition mkdir :: "path \<Rightarrow> world \<Rightarrow> world" where
  "mkdir p w =
     w\<lparr>dirs := dirs w \<union>
          (\<lambda>k. PosixPath (absolute p) (take k (parts p))) ` {1..length (parts p)}\<rparr>"

text \<open>
  \<open>urllib.request.urlopen(url)\<close>: one GET, logged. An HTTP error status raises
  \<open>HTTPError\<close>, a failure to connect raises \<open>URLError\<close>; otherwise the response object
  is returned: the bytes its body will deliver and, for a connection that breaks
  mid-stream, the cause that ends the delivery. When the peer closes early,
  \<open>HTTPResponse.read(amt)\<close> returns the empty bytes object and raises nothing: the
  response then reads like a shorter body.
\<close>

definition urlopen :: "env \<Rightarrow> string \<Rightarrow> world \<Rightarrow> (error + bytes \<times> string option) \<times> world" where
  "urlopen e url w =
     (let w' = w\<lparr>requests := requests w @ [url]\<rparr>
      in case respond e (length (requests w)) url of
           Complete body \<Rightarrow> (Inr (body, None), w')
         | HttpFail code \<Rightarrow> (Inl (HTTPError code), w')
         | ConnFail cause \<Rightarrow> (Inl (URLError cause), w')
         | Broken part cause \<Rightarrow> (Inr (part, Some cause), w')
         | Truncated part \<Rightarrow> (Inr (part, None), w'))"

text \<open>\<open>open(p, "wb")\<close> creates the file or truncates it.\<close>

definition open_wb :: "path \<Rightarrow> world \<Rightarrow> world" where
  "open_wb p w = w\<lparr>files := (files w)(p \<mapsto> [])\<rparr>"

text \<open>
  \<open>shutil.copyfileobj(resp, fh)\<close>: what the response delivers is appended to the file;
  a broken connection raises after the bytes delivered before it were written.
\<close>

definition copyfileobj :: "bytes \<times> string option \<Rightarrow> path \<Rightarrow> world \<Rightarrow> (error + unit) \<times> world" where
  "copyfileobj resp p w =
     (let old = (case files w p of None \<Rightarrow> [] | Some b \<Rightarrow> b);
          w' = w\<lparr>files := (files w)(p \<mapsto> old @ fst resp)\<rparr>
      in case snd resp of
           None \<Rightarrow> (Inr (), w')
         | Some cause \<Rightarrow> (Inl (StreamError cause), w'))"

text \<open>
  \<open>Path.replace\<close> and \<open>shutil.move\<close> on regular files: one rename, which leaves a
  file alone when source and destination are the same path. The destination's
  directory has to exist.
\<close>

definition rename_file :: "path \<Rightarrow> path \<Rightarrow> world \<Rightarrow> (error + unit) \<times> world" where
  "rename_file src dst w =
     (case files w src of
        None \<Rightarrow> (Inl (FileNotFoundError (path_name src)), w)
      | Some b \<Rightarrow>
          if is_dir w (parent dst)
          then (Inr (), w\<lparr>files := ((files w)(src := None))(dst \<mapsto> b)\<rparr>)
          else (Inl (FileNotFoundError (path_name dst)), w))"

text \<open>\<open>shutil.copy2(src, dst)\<close> on regular files.\<close>

definition copy2 :: "path \<Rightarrow> path \<Rightarrow> world \<Rightarrow> (error + unit) \<times> world" where
  "copy2 src dst w =
     (case files w src of
        None \<Rightarrow> (Inl (FileNotFoundError (path_name src)), w)
      | Some b \<Rightarrow>
          if src = dst then (Inl SameFileError, w)
          else if is_dir w (parent dst)
          then (Inr (), w\<lparr>files := (files w)(dst \<mapsto> b)\<rparr>)
          else (Inl (FileNotFoundError (path_name dst)), w))"

section \<open>download\<close>

text \<open>
  Lines 36 and 37: the \<open>with\<close> block. \<open>urlopen\<close> comes first, so that an HTTP error
  leaves no temporary file behind; then the temporary file is opened and filled.
\<close>

definition stream_to_tmp :: "env \<Rightarrow> string \<Rightarrow> path \<Rightarrow> world \<Rightarrow> (error + unit) \<times> world" where
  "stream_to_tmp e url tmp w =
     (case urlopen e url w of
        (Inl err, w1) \<Rightarrow> (Inl err, w1)
      | (Inr resp, w1) \<Rightarrow> copyfileobj resp tmp (open_wb tmp w1))"

text \<open>Lines 36 to 38: the body of the \<open>try\<close>.\<close>

definition try_body :: "env \<Rightarrow> string \<Rightarrow> path \<Rightarrow> path \<Rightarrow> world \<Rightarrow> (error + unit) \<times> world" where
  "try_body e url tmp target w =
     (case stream_to_tmp e url tmp w of
        (Inl err, w1) \<Rightarrow> (Inl err, w1)
      | (Inr _, w1) \<Rightarrow> rename_file tmp target w1)"

text \<open>
  Lines 40 to 43: \<open>except urllib.error.HTTPError\<close>. Status 404 becomes
  \<open>FileNotFoundError\<close>, any other \<open>HTTPError\<close> is raised again, and an exception of
  another class is not caught at all.
\<close>

definition except_HTTPError :: "string \<Rightarrow> error \<Rightarrow> error" where
  "except_HTTPError pdb_id err =
     (case err of
        HTTPError code \<Rightarrow>
          if code = 404
          then FileNotFoundError (''PDB entry '' @ pdb_id @ '' not found at RCSB.'')
          else HTTPError code
      | _ \<Rightarrow> err)"

text \<open>The three names line 28, 32 and 33 compute from the upper-cased code.\<close>

definition download_target :: "path \<Rightarrow> string \<Rightarrow> path" where
  "download_target out_dir pdb_id = joinpath out_dir (Path (pdb_id @ ''.pdb''))"

definition download_url :: "string \<Rightarrow> string" where
  "download_url pdb_id = ''https://files.rcsb.org/download/'' @ pdb_id @ ''.pdb''"

definition download_tmp :: "path \<Rightarrow> path" where
  "download_tmp target = with_suffix target ''.pdb.part''"

text \<open>
  The function has no \<open>return\<close> statement: on success its value is Python's \<open>None\<close>,
  the \<open>None\<close> of the result type here. (\<open>if target.exists(): pass\<close> does nothing.)
\<close>

definition download :: "env \<Rightarrow> string \<Rightarrow> path \<Rightarrow> world \<Rightarrow> (error + path option) \<times> world" where
  "download e pdb_id out_dir w =
     (if \<not> fullmatch_pdb pdb_id then (Inl (ValueError pdb_id), w)
      else
        let pdb_id' = upper pdb_id;
            w1 = mkdir out_dir w;
            target = download_target out_dir pdb_id';
            url = download_url pdb_id';
            tmp = download_tmp target
        in case try_body e url tmp target w1 of
             (Inl err, w2) \<Rightarrow> (Inl (except_HTTPError pdb_id' err), w2)
           | (Inr _, w2) \<Rightarrow> (Inr None, w2))"

section \<open>retrieve_natives\<close>

text \<open>
  The table as \<open>pandas\<close> holds it: named columns of cells, a cell being a string or
  missing. \<open>dropna(subset=[c])\<close> drops the rows whose cell in column \<open>c\<close> is missing
  (\<open>keep_rows\<close> does it to one column),
  \<open>df[c]\<close> raises \<open>KeyError\<close> for a column that is not there, and \<open>df[c] = col\<close>
  replaces the column or appends it.
\<close>

definition keep_rows :: "cell list \<Rightarrow> cell list \<Rightarrow> cell list" where
  "keep_rows col cs = map snd (filter (\<lambda>(k, v). k \<noteq> NaN) (zip col cs))"

definition dropna :: "string \<Rightarrow> dataframe \<Rightarrow> error + dataframe" where
  "dropna c df =
     (case map_of df c of
        None \<Rightarrow> Inl (KeyError c)
      | Some col \<Rightarrow> Inr (map (\<lambda>(n, cs). (n, keep_rows col cs)) df))"

definition getitem :: "dataframe \<Rightarrow> string \<Rightarrow> error + cell list" where
  "getitem df c = (case map_of df c of None \<Rightarrow> Inl (KeyError c) | Some col \<Rightarrow> Inr col)"

definition setitem :: "dataframe \<Rightarrow> string \<Rightarrow> cell list \<Rightarrow> dataframe" where
  "setitem df c col = AList.update c col df"

text \<open>\<open>f"{x}"\<close> of a cell.\<close>

definition fmt :: "cell \<Rightarrow> string" where
  "fmt x = (case x of Str s \<Rightarrow> s | NaN \<Rightarrow> ''nan'')"

text \<open>
  Lines 64 to 70: from the table that was read to the two lists the loop runs over,
  with the table as it is left in memory.
\<close>

definition load_entries :: "dataframe \<Rightarrow> error + dataframe \<times> cell list \<times> cell list" where
  "load_entries df =
     (case dropna ''pdb_id'' df of
        Inl err \<Rightarrow> Inl err
      | Inr df1 \<Rightarrow>
          (case getitem df1 ''pdb_id'' of
             Inl err \<Rightarrow> Inl err
           | Inr pdb_ids \<Rightarrow>
               (case getitem df1 ''id'' of
                  Inr ids \<Rightarrow> Inr (df1, pdb_ids, ids)
                | Inl _ \<Rightarrow>
                    (let df2 = setitem df1 ''id'' pdb_ids
                     in case getitem df2 ''id'' of
                          Inl err \<Rightarrow> Inl err
                        | Inr ids \<Rightarrow> Inr (df2, pdb_ids, ids)))))"

text \<open>
  Lines 75 to 80: the loop. A missing cell passed to \<open>download\<close> would fail in
  \<open>re.fullmatch\<close> with \<open>TypeError\<close>.
\<close>

fun entries_loop :: "env \<Rightarrow> path \<Rightarrow> (cell \<times> cell) list \<Rightarrow> world \<Rightarrow> (error + unit) \<times> world" where
  "entries_loop e outdir [] w = (Inr (), w)"
| "entries_loop e outdir ((pdb_id, ident) # rest) w =
     (case (case pdb_id of
              NaN \<Rightarrow> (Inl TypeError, w)
            | Str s \<Rightarrow> download e s outdir w) of
        (Inl err, w1) \<Rightarrow> (Inl err, w1)
      | (Inr _, w1) \<Rightarrow>
          (case rename_file (joinpath outdir (Path (fmt pdb_id @ ''.pdb'')))
                            (joinpath outdir (Path (fmt ident @ ''.pdb''))) w1 of
             (Inl err, w2) \<Rightarrow> (Inl err, w2)
           | (Inr _, w2) \<Rightarrow> entries_loop e outdir rest w2))"

text \<open>
  \<open>ids\<close> is assigned in the branch of the table only. In the other branch the name is
  unbound when line 75 reads it.
\<close>

definition retrieve_natives :: "env \<Rightarrow> string \<Rightarrow> path \<Rightarrow> world \<Rightarrow> (error + path) \<times> world" where
  "retrieve_natives e inp outdir w =
     (let w1 = mkdir outdir w;
          input_path = Path inp
      in if exists_path w1 input_path \<and> suffix input_path = ''.csv''
         then
           (case files w1 input_path of
              None \<Rightarrow> (Inl IsADirectoryError, w1)
            | Some content \<Rightarrow>
                (case parse_csv e content of
                   Inl err \<Rightarrow> (Inl err, w1)
                 | Inr df \<Rightarrow>
                     (case load_entries df of
                        Inl err \<Rightarrow> (Inl err, w1)
                      | Inr (df', pdb_ids, ids) \<Rightarrow>
                          (case entries_loop e outdir (zip pdb_ids ids) w1 of
                             (Inl err, w2) \<Rightarrow> (Inl err, w2)
                           | (Inr _, w2) \<Rightarrow> (Inr outdir, w2)))))
         else
           (let pdb_ids = [Str (strip inp)]
            in (Inl (UnboundLocalError ''ids''), w1)))"

section \<open>The command line\<close>

text \<open>The namespace \<open>parse_args\<close> returns: one field for each of the three options.\<close>

record namespace =
  input :: string
  output_dir :: string
  name :: string

definition main :: "env \<Rightarrow> namespace \<Rightarrow> world \<Rightarrow> (error + unit) \<times> world" where
  "main e args w =
     (let out = joinpath (Path (output_dir args)) (Path ''natives'')
      in case retrieve_natives e (input args) out w of
           (Inl err, w1) \<Rightarrow> (Inl err, w1)
         | (Inr _, w1) \<Rightarrow>
             copy2 (Path (input args)) (joinpath out (Path (path_name (Path (input args))))) w1)"

section \<open>Example worlds\<close>

text \<open>
  Concrete inputs the theorems below are run on: a response body, an output directory,
  a file system that holds nothing, one that holds an older download, servers that give every request the same answer,
  and a table file with the server that knows all its entries but \<open>4HHB\<close>.
\<close>

definition example_body :: bytes where
  "example_body = [65, 84, 79, 77]"

definition example_dir :: path where
  "example_dir = PosixPath True [''tmp'', ''out'', ''natives'']"

definition empty_world :: world where
  "empty_world = \<lparr>files = Map.empty, dirs = {}, requests = []\<rparr>"

definition stale_world :: world where
  "stale_world =
     \<lparr>files = [PosixPath True [''tmp'', ''out'', ''natives'', ''1CRN.pdb''] \<mapsto> [79, 76, 68]],
      dirs = {}, requests = []\<rparr>"

definition answering :: "response \<Rightarrow> env" where
  "answering r = \<lparr>respond = (\<lambda>n url. r), parse_csv = (\<lambda>b. Inl (ParserError []))\<rparr>"

definition example_table :: dataframe where
  "example_table = [(''pdb_id'', [Str ''1CRN'', NaN, Str ''4HHB'', Str ''9XYZ''])]"

definition small_table :: dataframe where
  "small_table = [(''pdb_id'', [NaN, Str ''9XYZ''])]"

definition table_env :: "dataframe \<Rightarrow> env" where
  "table_env df =
     \<lparr>respond = (\<lambda>n url. if url = ''https://files.rcsb.org/download/4HHB.pdb''
                          then HttpFail 404 else Complete example_body),
      parse_csv = (\<lambda>b. Inr df)\<rparr>"

definition table_world :: world where
  "table_world =
     \<lparr>files = [PosixPath False [''ids.csv''] \<mapsto> [112, 100, 98]], dirs = {}, requests = []\<rparr>"

definition example_args :: namespace where
  "example_args = \<lparr>input = ''ids.csv'', output_dir = ''/tmp/out'', name = ''natives''\<rparr>"


section \<open>Accession codes as file names\<close>

lemma is_alnum_not_sep: "is_alnum c \<Longrightarrow> c \<noteq> CHR ''/'' \<and> c \<noteq> CHR ''.''"
  by (auto simp: is_alnum_def Let_def)

lemma is_alnum_upper_char: "is_alnum c \<Longrightarrow> is_alnum (upper_char c)"
  by (auto simp: is_alnum_def upper_char_def Let_def)

lemma split_sep_plain: "CHR ''/'' \<notin> set s \<Longrightarrow> split_sep s = [s]"
  by (induction s) auto

lemma name_suffix_pdb:
  assumes "CHR ''.'' \<notin> set c" "c \<noteq> []"
  shows "name_suffix (c @ ''.pdb'') = ''.pdb''"
  using assms by (simp add: name_suffix_def Let_def takeWhile_append)

lemma fullmatch_upper: "fullmatch_pdb s \<Longrightarrow> fullmatch_pdb (upper s)"
  by (auto simp: fullmatch_pdb_def upper_def list_all_iff is_alnum_upper_char)

lemma fullmatch_plain:
  assumes "fullmatch_pdb c"
  shows "CHR ''/'' \<notin> set c" "CHR ''.'' \<notin> set c" "c \<noteq> []"
  using assms is_alnum_not_sep by (auto simp: fullmatch_pdb_def list_all_iff)

lemma Path_pdb_name:
  assumes "fullmatch_pdb c"
  shows "Path (c @ ''.pdb'') = PosixPath False [c @ ''.pdb'']"
proof -
  have "CHR ''/'' \<notin> set (c @ ''.pdb'')" using fullmatch_plain(1)[OF assms] by simp
  then have "split_sep (c @ ''.pdb'') = [c @ ''.pdb'']" by (rule split_sep_plain)
  moreover have "take 1 (c @ ''.pdb'') \<noteq> ''/''"
    using fullmatch_plain[OF assms] by (cases c) auto
  ultimately show ?thesis by (simp add: Path_def)
qed

lemma target_of_code:
  assumes "fullmatch_pdb c"
  shows "download_target d c = PosixPath (absolute d) (parts d @ [c @ ''.pdb''])"
  by (simp add: download_target_def Path_pdb_name[OF assms] joinpath_def)

lemma tmp_of_code:
  assumes "fullmatch_pdb c"
  shows "download_tmp (PosixPath a (ps @ [c @ ''.pdb'']))
         = PosixPath a (ps @ [c @ ''.pdb.part''])"
  using fullmatch_plain[OF assms]
  by (simp add: download_tmp_def with_suffix_def suffix_def path_name_def name_suffix_pdb Let_def)

lemma parent_join: "parent (PosixPath (absolute d) (parts d @ [n])) = d"
  by (simp add: parent_def)

lemma is_dir_mkdir: "is_dir (mkdir d w) d"
proof (cases "parts d = []")
  case True then show ?thesis by (simp add: is_dir_def)
next
  case False
  then have "length (parts d) \<in> {1..length (parts d)}" by (cases "parts d") auto
  moreover have "PosixPath (absolute d) (take (length (parts d)) (parts d)) = d" by simp
  ultimately have "d \<in> (\<lambda>k. PosixPath (absolute d) (take k (parts d))) ` {1..length (parts d)}"
    by (metis (mono_tags, lifting) image_eqI)
  then show ?thesis by (simp add: is_dir_def mkdir_def)
qed

lemma files_mkdir: "files (mkdir d w) = files w"
  by (simp add: mkdir_def)

lemma requests_mkdir: "requests (mkdir d w) = requests w"
  by (simp add: mkdir_def)

section \<open>What download does\<close>

lemma download_unfold:
  assumes v: "fullmatch_pdb s"
  shows "download e s d w =
     (case try_body e (download_url (upper s))
             (PosixPath (absolute d) (parts d @ [upper s @ ''.pdb.part'']))
             (PosixPath (absolute d) (parts d @ [upper s @ ''.pdb''])) (mkdir d w) of
        (Inl err, w2) \<Rightarrow> (Inl (except_HTTPError (upper s) err), w2)
      | (Inr _, w2) \<Rightarrow> (Inr None, w2))"
  using v by (simp add: download_def Let_def target_of_code[OF fullmatch_upper[OF v]]
      tmp_of_code[OF fullmatch_upper[OF v]])

text \<open>The result and the final state, by the answer of the server.\<close>

lemma download_cases:
  assumes v: "fullmatch_pdb s"
  shows "download e s d w =
     (let url = download_url (upper s);
          tmp = PosixPath (absolute d) (parts d @ [upper s @ ''.pdb.part'']);
          target = PosixPath (absolute d) (parts d @ [upper s @ ''.pdb'']);
          w1 = (mkdir d w)\<lparr>requests := requests w @ [url]\<rparr>
      in case respond e (length (requests w)) url of
           Complete body \<Rightarrow>
             (Inr None, w1\<lparr>files := ((files w)(tmp := None))(target \<mapsto> body)\<rparr>)
         | HttpFail code \<Rightarrow>
             (Inl (if code = 404
                   then FileNotFoundError (''PDB entry '' @ upper s @ '' not found at RCSB.'')
                   else HTTPError code), w1)
         | ConnFail cause \<Rightarrow> (Inl (URLError cause), w1)
         | Broken part cause \<Rightarrow>
             (Inl (StreamError cause), w1\<lparr>files := (files w)(tmp \<mapsto> part)\<rparr>)
         | Truncated part \<Rightarrow>
             (Inr None, w1\<lparr>files := ((files w)(tmp := None))(target \<mapsto> part)\<rparr>))"
  by (simp add: download_unfold[OF v] try_body_def stream_to_tmp_def urlopen_def
      copyfileobj_def open_wb_def rename_file_def requests_mkdir files_mkdir Let_def
      parent_join except_HTTPError_def is_dir_def is_dir_mkdir[unfolded is_dir_def]
      split: response.splits)

section \<open>Concrete codes\<close>

lemma upper_1CRN: "upper ''1CRN'' = ''1CRN''"
  by code_simp

lemma upper_1crn: "upper ''1crn'' = ''1CRN''"
  by code_simp

lemma fullmatch_1CRN: "fullmatch_pdb ''1CRN''"
  by code_simp

lemma fullmatch_1crn: "fullmatch_pdb ''1crn''"
  by code_simp

section \<open>The claims\<close>

subsection \<open>C1: a literal accession code as input\<close>

lemma suffix_1CRN: "suffix (Path ''1CRN'') = []"
  by (simp add: suffix_def Path_def path_name_def name_suffix_def)

lemma retrieve_natives_literal:
  assumes "\<not> exists_path (mkdir outdir w) (Path inp) \<or> suffix (Path inp) \<noteq> ''.csv''"
  shows "retrieve_natives e inp outdir w = (Inl (UnboundLocalError ''ids''), mkdir outdir w)"
  using assms by (auto simp add: retrieve_natives_def Let_def)

text \<open>
  C1. The claim: an input that is not the path of an existing \<open>.csv\<close> file is taken
  as one literal accession code, which is downloaded to \<open><output_dir>/<CODE>.pdb\<close>.
  The code does not get that far. On the input \<open>1CRN\<close>, in every world, with every
  server and every output directory, \<open>retrieve_natives\<close> raises \<open>UnboundLocalError\<close>
  for \<open>ids\<close> once the output directory is made: no request is issued and no file is
  written.
\<close>

theorem C1_literal_code_unbound_ids:
  "retrieve_natives e ''1CRN'' outdir w = (Inl (UnboundLocalError ''ids''), mkdir outdir w)
   \<and> requests (mkdir outdir w) = requests w
   \<and> files (mkdir outdir w) = files w"
  by (simp add: retrieve_natives_literal suffix_1CRN files_mkdir requests_mkdir)

subsection \<open>C2: the value of download\<close>

text \<open>
  C2, in the form the code satisfies. For every well-formed accession code, when the
  server delivers the whole body, \<open>download\<close> returns \<open>None\<close>, and the body is
  the content of the file \<open><destination_dir>/<CODE>.pdb\<close>.
\<close>

theorem C2_download_returns_none:
  assumes "fullmatch_pdb s"
    and "respond e (length (requests w)) (download_url (upper s)) = Complete body"
  shows "fst (download e s d w) = Inr None
         \<and> files (snd (download e s d w)) (download_target d (upper s)) = Some body"
  using assms(2)
  by (simp add: download_cases[OF assms(1)] Let_def target_of_code[OF fullmatch_upper[OF assms(1)]])

theorem C2_download_returns_none_witness:
  "fullmatch_pdb ''1crn''
   \<and> respond (answering (Complete example_body)) (length (requests empty_world))
        (download_url (upper ''1crn'')) = Complete example_body
   \<and> fst (download (answering (Complete example_body)) ''1crn'' example_dir empty_world) = Inr None
   \<and> files (snd (download (answering (Complete example_body)) ''1crn'' example_dir empty_world))
        (download_target example_dir ''1CRN'') = Some example_body"
proof -
  have r: "respond (answering (Complete example_body)) (length (requests empty_world))
        (download_url (upper ''1crn'')) = Complete example_body"
    by (simp add: answering_def)
  show ?thesis
    using C2_download_returns_none[OF fullmatch_1crn r, of example_dir] r fullmatch_1crn
    by (simp add: upper_1crn)
qed

text \<open>
  The claim as the specification states it fails: the code \<open>1CRN\<close> is well formed, the
  server delivers the body, and the value returned is not the destination path.
\<close>

theorem C2_returns_path_counterexample:
  "fullmatch_pdb ''1CRN''
   \<and> respond (answering (Complete example_body)) (length (requests empty_world))
        (download_url (upper ''1CRN'')) = Complete example_body
   \<and> fst (download (answering (Complete example_body)) ''1CRN'' example_dir empty_world)
       \<noteq> Inr (Some (download_target example_dir ''1CRN''))"
  by (simp add: download_cases[OF fullmatch_1CRN] Let_def answering_def fullmatch_1CRN)

subsection \<open>C3: the errors of download\<close>



subsection \<open>C4: the temporary file and the rename\<close>

text \<open>
  C4, in the form the code satisfies. For every well-formed accession code, the
  temporary file is \<open><CODE>.pdb.part\<close> and the target \<open><CODE>.pdb\<close>, both in the
  destination directory. When the server delivers the whole body, the \<open>with\<close> block
  ends in a state where the temporary file holds the whole body and the target is what
  it was before the call; the one rename that follows gives the target the whole body
  and removes the temporary file. Whenever \<open>download\<close> fails with an error (an HTTP
  error status, no connection, an exception raised mid-stream), the target is what it
  was before the call (absent, or its old content); after a connection that broke with
  an exception the bytes that arrived are in the temporary file only, and an HTTP error
  or a refused connection leaves the temporary file alone too. A peer that closes the
  connection early raises nothing: the bytes that arrived are staged and renamed to
  the target like a whole body.
\<close>

theorem C4_part_file_then_rename:
  assumes "fullmatch_pdb s"
  shows "let target = download_target d (upper s);
             tmp = download_tmp target;
             url = download_url (upper s);
             staged = stream_to_tmp e url tmp (mkdir d w);
             r = download e s d w
         in path_name tmp = upper s @ ''.pdb.part'' \<and> parent tmp = d
          \<and> path_name target = upper s @ ''.pdb'' \<and> parent target = d
          \<and> (\<forall>body. respond e (length (requests w)) url = Complete body \<longrightarrow>
                fst staged = Inr ()
              \<and> files (snd staged) tmp = Some body
              \<and> files (snd staged) target = files w target
              \<and> fst (rename_file tmp target (snd staged)) = Inr ()
              \<and> snd r = snd (rename_file tmp target (snd staged))
              \<and> fst r = Inr None
              \<and> files (snd r) target = Some body
              \<and> files (snd r) tmp = None)
          \<and> (\<forall>err. fst r = Inl err \<longrightarrow> files (snd r) target = files w target)
          \<and> (\<forall>part cause. respond e (length (requests w)) url = Broken part cause \<longrightarrow>
                fst r = Inl (StreamError cause) \<and> files (snd r) tmp = Some part)
          \<and> (\<forall>code. respond e (length (requests w)) url = HttpFail code \<longrightarrow>
                (\<exists>err. fst r = Inl err) \<and> files (snd r) tmp = files w tmp)
          \<and> (\<forall>cause. respond e (length (requests w)) url = ConnFail cause \<longrightarrow>
                (\<exists>err. fst r = Inl err) \<and> files (snd r) tmp = files w tmp)
          \<and> (\<forall>part. respond e (length (requests w)) url = Truncated part \<longrightarrow>
                fst staged = Inr ()
              \<and> files (snd staged) tmp = Some part
              \<and> files (snd staged) target = files w target
              \<and> snd r = snd (rename_file tmp target (snd staged))
              \<and> fst r = Inr None
              \<and> files (snd r) target = Some part
              \<and> files (snd r) tmp = None)"
proof -
  let ?c = "upper s"
  let ?target = "PosixPath (absolute d) (parts d @ [?c @ ''.pdb''])"
  let ?tmp = "PosixPath (absolute d) (parts d @ [?c @ ''.pdb.part''])"
  have t: "download_target d ?c = ?target"
    by (rule target_of_code[OF fullmatch_upper[OF assms]])
  have p: "download_tmp ?target = ?tmp"
    by (rule tmp_of_code[OF fullmatch_upper[OF assms]])
  have ne: "?tmp \<noteq> ?target" by simp
  show ?thesis
    unfolding Let_def t p
    using ne
    by (simp add: download_cases[OF assms] Let_def stream_to_tmp_def urlopen_def
        copyfileobj_def open_wb_def rename_file_def files_mkdir requests_mkdir
        path_name_def parent_def is_dir_def is_dir_mkdir[unfolded is_dir_def]
        split: response.splits)
qed

theorem C4_part_file_then_rename_witness:
  "fullmatch_pdb ''1CRN''
   \<and> files stale_world (PosixPath True [''tmp'', ''out'', ''natives'', ''1CRN.pdb'']) = Some [79, 76, 68]
   \<and> fst (download (answering (Complete example_body)) ''1CRN'' example_dir stale_world) = Inr None
   \<and> files (snd (download (answering (Complete example_body)) ''1CRN'' example_dir stale_world))
        (PosixPath True [''tmp'', ''out'', ''natives'', ''1CRN.pdb'']) = Some example_body
   \<and> files (snd (download (answering (Complete example_body)) ''1CRN'' example_dir stale_world))
        (PosixPath True [''tmp'', ''out'', ''natives'', ''1CRN.pdb.part'']) = None
   \<and> fst (download (answering (Broken [65, 84] ''reset'')) ''1CRN'' example_dir stale_world)
        = Inl (StreamError ''reset'')
   \<and> files (snd (download (answering (Broken [65, 84] ''reset'')) ''1CRN'' example_dir stale_world))
        (PosixPath True [''tmp'', ''out'', ''natives'', ''1CRN.pdb'']) = Some [79, 76, 68]
   \<and> files (snd (download (answering (Broken [65, 84] ''reset'')) ''1CRN'' example_dir stale_world))
        (PosixPath True [''tmp'', ''out'', ''natives'', ''1CRN.pdb.part'']) = Some [65, 84]
   \<and> files (snd (download (answering (HttpFail 404)) ''1CRN'' example_dir stale_world))
        (PosixPath True [''tmp'', ''out'', ''natives'', ''1CRN.pdb'']) = Some [79, 76, 68]
   \<and> files (snd (download (answering (HttpFail 404)) ''1CRN'' example_dir stale_world))
        (PosixPath True [''tmp'', ''out'', ''natives'', ''1CRN.pdb.part'']) = None
   \<and> fst (download (answering (Truncated [65, 84])) ''1CRN'' example_dir stale_world) = Inr None
   \<and> files (snd (download (answering (Truncated [65, 84])) ''1CRN'' example_dir stale_world))
        (PosixPath True [''tmp'', ''out'', ''natives'', ''1CRN.pdb'']) = Some [65, 84]"
proof -
  have t: "download_target example_dir ''1CRN''
           = PosixPath True [''tmp'', ''out'', ''natives'', ''1CRN.pdb'']"
    by (simp add: target_of_code[OF fullmatch_1CRN] example_dir_def)
  have p: "download_tmp (PosixPath True [''tmp'', ''out'', ''natives'', ''1CRN.pdb''])
           = PosixPath True [''tmp'', ''out'', ''natives'', ''1CRN.pdb.part'']"
    using tmp_of_code[OF fullmatch_1CRN, of True "[''tmp'', ''out'', ''natives'']"] by simp
  have old: "files stale_world (PosixPath True [''tmp'', ''out'', ''natives'', ''1CRN.pdb'']) = Some [79, 76, 68]"
    by (simp add: stale_world_def)
  have c: "respond (answering (Complete example_body)) (length (requests stale_world))
             (download_url ''1CRN'') = Complete example_body"
    by (simp add: answering_def)
  have b: "respond (answering (Broken [65, 84] ''reset'')) (length (requests stale_world))
             (download_url ''1CRN'') = Broken [65, 84] ''reset''"
    by (simp add: answering_def)
  have h: "respond (answering (HttpFail 404)) (length (requests stale_world))
             (download_url ''1CRN'') = HttpFail 404"
    by (simp add: answering_def)
  have u: "respond (answering (Truncated [65, 84])) (length (requests stale_world))
             (download_url ''1CRN'') = Truncated [65, 84]"
    by (simp add: answering_def)
  have nopart: "files stale_world (PosixPath True [''tmp'', ''out'', ''natives'', ''1CRN.pdb.part'']) = None"
    by (simp add: stale_world_def)
  note missing = C4_part_file_then_rename[OF fullmatch_1CRN, of example_dir
        "answering (HttpFail 404)" stale_world, unfolded Let_def upper_1CRN t p]
  note early = C4_part_file_then_rename[OF fullmatch_1CRN, of example_dir
        "answering (Truncated [65, 84])" stale_world, unfolded Let_def upper_1CRN t p]
  note whole = C4_part_file_then_rename[OF fullmatch_1CRN, of example_dir
        "answering (Complete example_body)" stale_world, unfolded Let_def upper_1CRN t p]
  note broken = C4_part_file_then_rename[OF fullmatch_1CRN, of example_dir
        "answering (Broken [65, 84] ''reset'')" stale_world, unfolded Let_def upper_1CRN t p]
  from whole c have
    "fst (download (answering (Complete example_body)) ''1CRN'' example_dir stale_world) = Inr None
     \<and> files (snd (download (answering (Complete example_body)) ''1CRN'' example_dir stale_world))
          (PosixPath True [''tmp'', ''out'', ''natives'', ''1CRN.pdb'']) = Some example_body
     \<and> files (snd (download (answering (Complete example_body)) ''1CRN'' example_dir stale_world))
          (PosixPath True [''tmp'', ''out'', ''natives'', ''1CRN.pdb.part'']) = None"
    by blast
  moreover from broken b have
    "fst (download (answering (Broken [65, 84] ''reset'')) ''1CRN'' example_dir stale_world)
        = Inl (StreamError ''reset'')
     \<and> files (snd (download (answering (Broken [65, 84] ''reset'')) ''1CRN'' example_dir stale_world))
        (PosixPath True [''tmp'', ''out'', ''natives'', ''1CRN.pdb'']) = files stale_world (PosixPath True [''tmp'', ''out'', ''natives'', ''1CRN.pdb''])
     \<and> files (snd (download (answering (Broken [65, 84] ''reset'')) ''1CRN'' example_dir stale_world))
        (PosixPath True [''tmp'', ''out'', ''natives'', ''1CRN.pdb.part'']) = Some [65, 84]"
    by blast
  moreover from missing h have
    "files (snd (download (answering (HttpFail 404)) ''1CRN'' example_dir stale_world))
        (PosixPath True [''tmp'', ''out'', ''natives'', ''1CRN.pdb'']) = files stale_world (PosixPath True [''tmp'', ''out'', ''natives'', ''1CRN.pdb''])
     \<and> files (snd (download (answering (HttpFail 404)) ''1CRN'' example_dir stale_world))
        (PosixPath True [''tmp'', ''out'', ''natives'', ''1CRN.pdb.part'']) = files stale_world (PosixPath True [''tmp'', ''out'', ''natives'', ''1CRN.pdb.part''])"
    by blast
  moreover from early u have
    "fst (download (answering (Truncated [65, 84])) ''1CRN'' example_dir stale_world) = Inr None
     \<and> files (snd (download (answering (Truncated [65, 84])) ''1CRN'' example_dir stale_world))
        (PosixPath True [''tmp'', ''out'', ''natives'', ''1CRN.pdb'']) = Some [65, 84]"
    by blast
  ultimately show ?thesis
    using fullmatch_1CRN old nopart by simp
qed

text \<open>
  The claim as the specification states it fails for a transfer that is interrupted
  without an error: the peer closes after two bytes, \<open>download\<close> returns normally,
  and the file at the final path, an older download, has been replaced by the two
  bytes.
\<close>

theorem C4_early_close_counterexample:
  "fullmatch_pdb ''1CRN''
   \<and> respond (answering (Truncated [65, 84])) (length (requests stale_world))
        (download_url (upper ''1CRN'')) = Truncated [65, 84]
   \<and> files stale_world (download_target example_dir (upper ''1CRN'')) = Some [79, 76, 68]
   \<and> fst (download (answering (Truncated [65, 84])) ''1CRN'' example_dir stale_world) = Inr None
   \<and> files (snd (download (answering (Truncated [65, 84])) ''1CRN'' example_dir stale_world))
        (download_target example_dir (upper ''1CRN'')) = Some [65, 84]
   \<and> files (snd (download (answering (Truncated [65, 84])) ''1CRN'' example_dir stale_world))
        (download_target example_dir (upper ''1CRN'')) \<noteq> files stale_world (download_target example_dir (upper ''1CRN''))"
proof -
  have t: "download_target example_dir ''1CRN''
           = PosixPath True [''tmp'', ''out'', ''natives'', ''1CRN.pdb'']"
    by (simp add: target_of_code[OF fullmatch_1CRN] example_dir_def)
  have r: "respond (answering (Truncated [65, 84])) (length (requests stale_world))
        (download_url ''1CRN'') = Truncated [65, 84]"
    by (simp add: answering_def)
  have old: "files stale_world (PosixPath True [''tmp'', ''out'', ''natives'', ''1CRN.pdb''])
             = Some [79, 76, 68]"
    by (simp add: stale_world_def)
  have d: "fst (download (answering (Truncated [65, 84])) ''1CRN'' example_dir stale_world) = Inr None"
    using r by (simp add: download_cases[OF fullmatch_1CRN] Let_def upper_1CRN)
  have f: "files (snd (download (answering (Truncated [65, 84])) ''1CRN'' example_dir stale_world))
        (PosixPath True [''tmp'', ''out'', ''natives'', ''1CRN.pdb'']) = Some [65, 84]"
    using r by (simp add: download_cases[OF fullmatch_1CRN] Let_def upper_1CRN example_dir_def)
  show ?thesis
    using fullmatch_1CRN r old d f by (simp add: upper_1CRN t)
qed

subsection \<open>C5: a malformed code\<close>

lemma not_fullmatch_punct: "\<not> fullmatch_pdb ''1C-N''"
  by code_simp

text \<open>
  C5. For every string that the pattern does not match, \<open>download\<close> fails with
  \<open>ValueError\<close> and the world is the one it started in: no request in the log, no
  directory made, no file touched.
\<close>

theorem C5_invalid_code_rejected_before_io:
  assumes "\<not> fullmatch_pdb s"
  shows "download e s d w = (Inl (ValueError s), w)"
  using assms by (simp add: download_def)

theorem C5_invalid_code_rejected_before_io_witness:
  "\<not> fullmatch_pdb ''1C-N''
   \<and> download (answering (Complete example_body)) ''1C-N'' example_dir empty_world
       = (Inl (ValueError ''1C-N''), empty_world)
   \<and> requests empty_world = [] \<and> dirs empty_world = {}"
  using C5_invalid_code_rejected_before_io[OF not_fullmatch_punct,
      of "answering (Complete example_body)" example_dir empty_world] not_fullmatch_punct
  by (simp add: empty_world_def)

subsection \<open>C6: the case of the code\<close>

text \<open>Upper-casing a second time changes nothing: \<open>upper s\<close> has no lower-case letter.\<close>

lemma upper_char_fixed:
  "\<not> (97 \<le> (of_char x :: nat) \<and> (of_char x :: nat) \<le> 122) \<Longrightarrow> upper_char x = x"
  by (auto simp: upper_char_def Let_def)

lemma upper_char_idem: "upper_char (upper_char c) = upper_char c"
proof (cases "97 \<le> (of_char c :: nat) \<and> (of_char c :: nat) \<le> 122")
  case True
  then have "(of_char c - 32 :: nat) < 256" by arith
  then have "(of_char c - 32 :: nat) mod 256 = of_char c - 32" by simp
  with True have "(of_char (upper_char c) :: nat) = of_char c - 32"
    by (simp add: upper_char_def Let_def)
  with True have "\<not> (97 \<le> (of_char (upper_char c) :: nat) \<and> (of_char (upper_char c) :: nat) \<le> 122)"
    by arith
  then show ?thesis by (rule upper_char_fixed)
next
  case False
  then show ?thesis using upper_char_fixed[of c] by simp
qed

lemma upper_idem: "upper (upper s) = upper s"
  by (simp add: upper_def upper_char_idem)

text \<open>
  C6. Two well-formed codes that differ in the case of their letters only (their
  upper-cased forms agree): \<open>download\<close> of either issues exactly one request, for the
  same URL, the one built from the upper-cased code; when the server delivers the body,
  either call leaves it in the same file, whose name is \<open><CODE>.pdb\<close> with the code
  in capitals; and the two calls return the same result in the same final world.
\<close>

theorem C6_case_normalised:
  assumes "fullmatch_pdb s" and "fullmatch_pdb t" and "upper s = upper t"
  shows "download_url (upper s) = download_url (upper t)
       \<and> download_target d (upper s) = download_target d (upper t)
       \<and> path_name (download_target d (upper s)) = upper s @ ''.pdb''
       \<and> download e s d w = download e t d w
       \<and> upper (upper s) = upper s
       \<and> requests (snd (download e s d w)) = requests w @ [download_url (upper s)]
       \<and> requests (snd (download e t d w)) = requests w @ [download_url (upper s)]
       \<and> (\<forall>body. respond e (length (requests w)) (download_url (upper s)) = Complete body \<longrightarrow>
              files (snd (download e s d w)) (download_target d (upper s)) = Some body
            \<and> files (snd (download e t d w)) (download_target d (upper s)) = Some body)"
proof -
  have eq: "download e s d w = download e t d w"
    by (simp only: download_cases[OF assms(1)] download_cases[OF assms(2)] assms(3))
  have nm: "path_name (download_target d (upper s)) = upper s @ ''.pdb''"
    by (simp add: target_of_code[OF fullmatch_upper[OF assms(1)]] path_name_def)
  have rq: "requests (snd (download e s d w)) = requests w @ [download_url (upper s)]"
    by (simp add: download_cases[OF assms(1)] Let_def split: response.splits)
  have fl: "files (snd (download e s d w)) (download_target d (upper s)) = Some body"
    if "respond e (length (requests w)) (download_url (upper s)) = Complete body" for body
    using that
    by (simp add: download_cases[OF assms(1)] Let_def target_of_code[OF fullmatch_upper[OF assms(1)]])
  show ?thesis
    using eq nm rq fl assms(3) upper_idem[of s] by simp
qed

theorem C6_case_normalised_witness:
  "fullmatch_pdb ''1crn'' \<and> fullmatch_pdb ''1CRN'' \<and> upper ''1crn'' = upper ''1CRN''
   \<and> download_url (upper ''1crn'') = ''https://files.rcsb.org/download/1CRN.pdb''
   \<and> download_url (upper ''1CRN'') = ''https://files.rcsb.org/download/1CRN.pdb''
   \<and> path_name (download_target example_dir (upper ''1crn'')) = ''1CRN.pdb''
   \<and> path_name (download_target example_dir (upper ''1CRN'')) = ''1CRN.pdb''
   \<and> download (answering (Complete example_body)) ''1crn'' example_dir empty_world
       = download (answering (Complete example_body)) ''1CRN'' example_dir empty_world
   \<and> requests (snd (download (answering (Complete example_body)) ''1crn'' example_dir empty_world))
       = [''https://files.rcsb.org/download/1CRN.pdb'']
   \<and> requests (snd (download (answering (Complete example_body)) ''1CRN'' example_dir empty_world))
       = [''https://files.rcsb.org/download/1CRN.pdb'']
   \<and> files (snd (download (answering (Complete example_body)) ''1crn'' example_dir empty_world))
        (PosixPath True [''tmp'', ''out'', ''natives'', ''1CRN.pdb'']) = Some example_body
   \<and> files (snd (download (answering (Complete example_body)) ''1CRN'' example_dir empty_world))
        (PosixPath True [''tmp'', ''out'', ''natives'', ''1CRN.pdb'']) = Some example_body"
proof -
  let ?e = "answering (Complete example_body)"
  have u: "upper ''1crn'' = upper ''1CRN''" by (simp add: upper_1crn upper_1CRN)
  have r: "respond ?e (length (requests empty_world)) (download_url ''1CRN'') = Complete example_body"
    by (simp add: answering_def)
  have t: "download_target example_dir ''1CRN''
           = PosixPath True [''tmp'', ''out'', ''natives'', ''1CRN.pdb'']"
    by (simp add: target_of_code[OF fullmatch_1CRN] example_dir_def)
  have q: "requests empty_world = []" by (simp add: empty_world_def)
  note c6 = C6_case_normalised[OF fullmatch_1crn fullmatch_1CRN u, of example_dir ?e empty_world,
      unfolded upper_1crn upper_1CRN t q]
  from c6 r[unfolded q] have
    "path_name (PosixPath True [''tmp'', ''out'', ''natives'', ''1CRN.pdb'']) = ''1CRN'' @ ''.pdb''
     \<and> download ?e ''1crn'' example_dir empty_world = download ?e ''1CRN'' example_dir empty_world
     \<and> requests (snd (download ?e ''1crn'' example_dir empty_world)) = [] @ [download_url ''1CRN'']
     \<and> requests (snd (download ?e ''1CRN'' example_dir empty_world)) = [] @ [download_url ''1CRN'']
     \<and> files (snd (download ?e ''1crn'' example_dir empty_world))
          (PosixPath True [''tmp'', ''out'', ''natives'', ''1CRN.pdb'']) = Some example_body
     \<and> files (snd (download ?e ''1CRN'' example_dir empty_world))
          (PosixPath True [''tmp'', ''out'', ''natives'', ''1CRN.pdb'']) = Some example_body"
    by blast
  then show ?thesis
    using fullmatch_1crn fullmatch_1CRN
    by (simp add: upper_1crn upper_1CRN t download_url_def)
qed

section \<open>What the table and the loop do\<close>

lemma map_of_map_values:
  "map_of (map (\<lambda>(n, cs). (n, f cs)) df) c = map_option f (map_of df c)"
  by (induction df) auto

lemma keep_rows_self: "keep_rows col col = filter (\<lambda>k. k \<noteq> NaN) col"
  unfolding keep_rows_def by (induction col) auto

lemma update_absent: "map_of al k = None \<Longrightarrow> AList.update k v al = al @ [(k, v)]"
  by (induction al) (auto split: if_splits)

lemma load_entries_no_id:
  assumes "map_of df ''pdb_id'' = Some col" and "map_of df ''id'' = None"
  shows "load_entries df =
           Inr (map (\<lambda>(n, cs). (n, keep_rows col cs)) df @ [(''id'', filter (\<lambda>k. k \<noteq> NaN) col)],
                filter (\<lambda>k. k \<noteq> NaN) col, filter (\<lambda>k. k \<noteq> NaN) col)"
proof -
  let ?df1 = "map (\<lambda>(n, cs). (n, keep_rows col cs)) df"
  let ?ps = "filter (\<lambda>k. k \<noteq> NaN) col"
  have d: "dropna ''pdb_id'' df = Inr ?df1" using assms(1) by (simp add: dropna_def)
  have g1: "getitem ?df1 ''pdb_id'' = Inr ?ps"
    using assms(1) by (simp add: getitem_def map_of_map_values keep_rows_self)
  have n: "map_of ?df1 ''id'' = None"
    using assms(2) by (simp add: map_of_map_values)
  then have g2: "getitem ?df1 ''id'' = Inl (KeyError ''id'')" by (simp add: getitem_def)
  have u: "setitem ?df1 ''id'' ?ps = ?df1 @ [(''id'', ?ps)]"
    unfolding setitem_def by (rule update_absent[OF n])
  have g3: "getitem (?df1 @ [(''id'', ?ps)]) ''id'' = Inr ?ps"
    using n by (simp add: getitem_def map_add_def)
  show ?thesis
    by (simp add: load_entries_def d g1 g2 u g3)
qed

lemma entries_loop_append:
  "entries_loop e d (pre @ post) w =
     (case entries_loop e d pre w of
        (Inl err, w1) \<Rightarrow> (Inl err, w1)
      | (Inr _, w1) \<Rightarrow> entries_loop e d post w1)"
  by (induction pre arbitrary: w) (auto split: prod.splits sum.splits cell.splits)

lemma retrieve_natives_table:
  assumes "exists_path (mkdir outdir w) (Path inp)" and "suffix (Path inp) = ''.csv''"
    and "files (mkdir outdir w) (Path inp) = Some content"
    and "parse_csv e content = Inr df"
    and "load_entries df = Inr (df', pdb_ids, ids)"
  shows "retrieve_natives e inp outdir w =
           (case entries_loop e outdir (zip pdb_ids ids) (mkdir outdir w) of
              (Inl err, w2) \<Rightarrow> (Inl err, w2)
            | (Inr _, w2) \<Rightarrow> (Inr outdir, w2))"
  using assms by (simp add: retrieve_natives_def Let_def)

lemma download_failure_files:
  assumes "fst (download e s d w) = Inl err"
    and "q \<noteq> download_tmp (download_target d (upper s))"
  shows "files (snd (download e s d w)) q = files w q"
proof (cases "fullmatch_pdb s")
  case False
  then show ?thesis by (simp add: download_def)
next
  case True
  have t: "download_tmp (download_target d (upper s))
           = PosixPath (absolute d) (parts d @ [upper s @ ''.pdb.part''])"
    by (simp add: target_of_code[OF fullmatch_upper[OF True]] tmp_of_code[OF fullmatch_upper[OF True]])
  show ?thesis
    using assms unfolding t
    by (auto simp: download_cases[OF True] Let_def files_mkdir split: response.splits)
qed

lemma download_requests:
  "requests (snd (download e s d w)) = requests w
   \<or> requests (snd (download e s d w)) = requests w @ [download_url (upper s)]"
proof (cases "fullmatch_pdb s")
  case False
  then show ?thesis by (simp add: download_def)
next
  case True
  show ?thesis
    by (simp add: download_cases[OF True] Let_def split: response.splits)
qed

lemma entries_step_upper:
  assumes v: "fullmatch_pdb s" and u: "upper s = s"
    and r: "respond e (length (requests w)) (download_url s) = Complete body"
  shows "download e s d w =
           (Inr None, (mkdir d w)\<lparr>requests := requests w @ [download_url s],
              files := ((files w)(PosixPath (absolute d) (parts d @ [s @ ''.pdb.part'']) := None))
                         (PosixPath (absolute d) (parts d @ [s @ ''.pdb'']) \<mapsto> body)\<rparr>)"
    and "entries_loop e d ((Str s, Str s) # rest) w =
           entries_loop e d rest (snd (download e s d w))"
proof -
  show d: "download e s d w =
           (Inr None, (mkdir d w)\<lparr>requests := requests w @ [download_url s],
              files := ((files w)(PosixPath (absolute d) (parts d @ [s @ ''.pdb.part'']) := None))
                         (PosixPath (absolute d) (parts d @ [s @ ''.pdb'']) \<mapsto> body)\<rparr>)"
    using r by (simp add: download_cases[OF v] u Let_def)
  have j: "joinpath d (Path (s @ ''.pdb'')) = PosixPath (absolute d) (parts d @ [s @ ''.pdb''])"
    using target_of_code[OF v, of d] by (simp add: download_target_def)
  show "entries_loop e d ((Str s, Str s) # rest) w =
           entries_loop e d rest (snd (download e s d w))"
    by (simp add: d fmt_def j rename_file_def parent_join is_dir_def
        is_dir_mkdir[unfolded is_dir_def])
qed

section \<open>Concrete tables\<close>

lemma suffix_ids_csv: "suffix (Path ''ids.csv'') = ''.csv''"
  by (simp add: suffix_def Path_def path_name_def name_suffix_def)

lemma Path_ids_csv: "Path ''ids.csv'' = PosixPath False [''ids.csv'']"
  by (simp add: Path_def)

lemma example_out: "joinpath (Path ''/tmp/out'') (Path ''natives'') = example_dir"
  by (simp add: Path_def joinpath_def example_dir_def)

lemma fullmatch_9XYZ: "fullmatch_pdb ''9XYZ''"
  by code_simp
lemma upper_9XYZ: "upper ''9XYZ'' = ''9XYZ''"
  by code_simp
lemma fullmatch_4HHB: "fullmatch_pdb ''4HHB''"
  by code_simp
lemma upper_4HHB: "upper ''4HHB'' = ''4HHB''"
  by code_simp

subsection \<open>C7: a table without the column id\<close>

text \<open>
  C7. When the table has a column \<open>pdb_id\<close> and no column \<open>id\<close>: the two lists
  the loop runs over are both the cells of \<open>pdb_id\<close> that are not missing, in table
  order, so that a row with a missing \<open>pdb_id\<close> is no entry of the loop and is never
  fetched; the table in memory has a column \<open>id\<close> equal to its column \<open>pdb_id\<close>;
  \<open>retrieve_natives\<close> on a file that parses to this table is the loop over the pairs
  \<open>(p, p)\<close>. For an entry whose code is well formed and in capitals, as \<open>9XYZ\<close>,
  a successful transfer leaves the body in \<open><outdir>/<pdb_id>.pdb\<close> and the loop
  goes on.
\<close>

theorem C7_no_id_column:
  assumes "map_of df ''pdb_id'' = Some col" and "map_of df ''id'' = None"
  shows "let ps = filter (\<lambda>k. k \<noteq> NaN) col in
      (\<exists>df'. load_entries df = Inr (df', ps, ps)
              \<and> map_of df' ''id'' = Some ps \<and> map_of df' ''pdb_id'' = Some ps)
    \<and> zip ps ps = map (\<lambda>p. (p, p)) ps
    \<and> (\<forall>inp content.
          exists_path (mkdir outdir w) (Path inp) \<and> suffix (Path inp) = ''.csv''
          \<and> files (mkdir outdir w) (Path inp) = Some content \<and> parse_csv e content = Inr df
          \<longrightarrow> retrieve_natives e inp outdir w =
                (case entries_loop e outdir (map (\<lambda>p. (p, p)) ps) (mkdir outdir w) of
                   (Inl err, w2) \<Rightarrow> (Inl err, w2)
                 | (Inr _, w2) \<Rightarrow> (Inr outdir, w2)))
    \<and> (\<forall>s body rest w'.
          fullmatch_pdb s \<and> upper s = s
          \<and> respond e (length (requests w')) (download_url s) = Complete body
          \<longrightarrow> entries_loop e outdir ((Str s, Str s) # rest) w'
                = entries_loop e outdir rest (snd (download e s outdir w'))
              \<and> files (snd (download e s outdir w')) (joinpath outdir (Path (s @ ''.pdb'')))
                = Some body)"
proof -
  let ?ps = "filter (\<lambda>k. k \<noteq> NaN) col"
  let ?df' = "map (\<lambda>(n, cs). (n, keep_rows col cs)) df @ [(''id'', ?ps)]"
  have l: "load_entries df = Inr (?df', ?ps, ?ps)"
    by (rule load_entries_no_id[OF assms])
  have i: "map_of ?df' ''id'' = Some ?ps"
    using assms(2) by (simp add: map_add_def map_of_map_values)
  have p: "map_of ?df' ''pdb_id'' = Some ?ps"
    using assms(1) by (simp add: map_add_def map_of_map_values keep_rows_self)
  have z: "zip ?ps ?ps = map (\<lambda>p. (p, p)) ?ps"
    by (induction col) auto
  have r: "retrieve_natives e inp outdir w =
                (case entries_loop e outdir (map (\<lambda>p. (p, p)) ?ps) (mkdir outdir w) of
                   (Inl err, w2) \<Rightarrow> (Inl err, w2)
                 | (Inr _, w2) \<Rightarrow> (Inr outdir, w2))"
    if "exists_path (mkdir outdir w) (Path inp)" "suffix (Path inp) = ''.csv''"
       "files (mkdir outdir w) (Path inp) = Some content" "parse_csv e content = Inr df"
    for inp content
    using retrieve_natives_table[OF that l] by (simp add: z)
  have s: "entries_loop e outdir ((Str s, Str s) # rest) w'
                = entries_loop e outdir rest (snd (download e s outdir w'))
              \<and> files (snd (download e s outdir w')) (joinpath outdir (Path (s @ ''.pdb'')))
                = Some body"
    if "fullmatch_pdb s" "upper s = s"
       "respond e (length (requests w')) (download_url s) = Complete body"
    for s body rest w'
  proof -
    have j: "joinpath outdir (Path (s @ ''.pdb''))
             = PosixPath (absolute outdir) (parts outdir @ [s @ ''.pdb''])"
      using target_of_code[OF that(1), of outdir] by (simp add: download_target_def)
    show ?thesis
      using entries_step_upper(2)[OF that]
      by (simp add: entries_step_upper(1)[OF that] j)
  qed
  show ?thesis
    unfolding Let_def using l i p z r s by blast
qed

theorem C7_no_id_column_witness:
  "map_of small_table ''pdb_id'' = Some [NaN, Str ''9XYZ'']
   \<and> map_of small_table ''id'' = None
   \<and> (\<exists>df'. load_entries small_table = Inr (df', [Str ''9XYZ''], [Str ''9XYZ''])
              \<and> map_of df' ''id'' = Some [Str ''9XYZ''])
   \<and> fst (retrieve_natives (table_env small_table) ''ids.csv'' example_dir table_world)
       = Inr example_dir
   \<and> files (snd (retrieve_natives (table_env small_table) ''ids.csv'' example_dir table_world))
        (PosixPath True [''tmp'', ''out'', ''natives'', ''9XYZ.pdb'']) = Some example_body
   \<and> requests (snd (retrieve_natives (table_env small_table) ''ids.csv'' example_dir table_world))
       = [''https://files.rcsb.org/download/9XYZ.pdb'']"
proof -
  let ?e = "table_env small_table"
  let ?w0 = "mkdir example_dir table_world"
  have a: "map_of small_table ''pdb_id'' = Some [NaN, Str ''9XYZ'']"
    and b: "map_of small_table ''id'' = None"
    by (simp_all add: small_table_def)
  have ps: "filter (\<lambda>k. k \<noteq> NaN) [NaN, Str ''9XYZ''] = [Str ''9XYZ'']" by simp
  have m: "map (\<lambda>p. (p, p)) [Str ''9XYZ''] = [(Str ''9XYZ'', Str ''9XYZ'')]" by simp
  note c7 = C7_no_id_column[OF a b, of example_dir table_world ?e, unfolded Let_def ps m]
  have f: "files ?w0 (Path ''ids.csv'') = Some [112, 100, 98]"
    by (simp add: files_mkdir Path_ids_csv table_world_def)
  then have x: "exists_path ?w0 (Path ''ids.csv'')" by (simp add: exists_path_def)
  have pc: "parse_csv ?e [112, 100, 98] = Inr small_table" by (simp add: table_env_def)
  have rq: "requests ?w0 = []" by (simp add: requests_mkdir table_world_def)
  have rs: "respond ?e (length (requests ?w0)) (download_url ''9XYZ'') = Complete example_body"
    by (simp add: table_env_def download_url_def)
  from c7 x f pc suffix_ids_csv
  have r: "retrieve_natives ?e ''ids.csv'' example_dir table_world =
            (case entries_loop ?e example_dir [(Str ''9XYZ'', Str ''9XYZ'')] ?w0 of
               (Inl err, w2) \<Rightarrow> (Inl err, w2)
             | (Inr _, w2) \<Rightarrow> (Inr example_dir, w2))"
    by blast
  from c7 fullmatch_9XYZ upper_9XYZ rs
  have s: "entries_loop ?e example_dir [(Str ''9XYZ'', Str ''9XYZ'')] ?w0
             = entries_loop ?e example_dir [] (snd (download ?e ''9XYZ'' example_dir ?w0))
           \<and> files (snd (download ?e ''9XYZ'' example_dir ?w0))
                (joinpath example_dir (Path (''9XYZ'' @ ''.pdb''))) = Some example_body"
    by blast
  have j: "joinpath example_dir (Path (''9XYZ'' @ ''.pdb''))
           = PosixPath True [''tmp'', ''out'', ''natives'', ''9XYZ.pdb'']"
    using target_of_code[OF fullmatch_9XYZ, of example_dir]
    by (simp add: download_target_def example_dir_def)
  have q: "requests (snd (download ?e ''9XYZ'' example_dir ?w0))
           = [''https://files.rcsb.org/download/9XYZ.pdb'']"
    using rs by (simp add: download_cases[OF fullmatch_9XYZ] upper_9XYZ Let_def rq download_url_def)
  from c7 have l: "\<exists>df'. load_entries small_table = Inr (df', [Str ''9XYZ''], [Str ''9XYZ''])
              \<and> map_of df' ''id'' = Some [Str ''9XYZ'']"
    by blast
  show ?thesis
    using a b l s q unfolding r j[symmetric] by simp
qed

section \<open>The example table\<close>

lemma table_world_staged:
  "files (mkdir example_dir table_world) (Path ''ids.csv'') = Some [112, 100, 98]"
  "exists_path (mkdir example_dir table_world) (Path ''ids.csv'')"
  "requests (mkdir example_dir table_world) = []"
  by (simp_all add: files_mkdir requests_mkdir Path_ids_csv table_world_def exists_path_def)

lemma load_example_table:
  "load_entries example_table =
     Inr ([(''pdb_id'', [Str ''1CRN'', Str ''4HHB'', Str ''9XYZ'']),
           (''id'', [Str ''1CRN'', Str ''4HHB'', Str ''9XYZ''])],
          [Str ''1CRN'', Str ''4HHB'', Str ''9XYZ''], [Str ''1CRN'', Str ''4HHB'', Str ''9XYZ''])"
proof -
  have a: "map_of example_table ''pdb_id'' = Some [Str ''1CRN'', NaN, Str ''4HHB'', Str ''9XYZ'']"
    and b: "map_of example_table ''id'' = None"
    by (simp_all add: example_table_def)
  show ?thesis
    using load_entries_no_id[OF a b] by (simp add: example_table_def keep_rows_def)
qed

subsection \<open>C8: the first failure ends the batch\<close>

text \<open>
  C8. A run of \<open>main\<close> on a table file: the entries before \<open>(s, ident)\<close> went
  through (state \<open>w1\<close>), and \<open>download\<close> of \<open>s\<close> fails with \<open>err\<close> in state
  \<open>w2\<close>. Then the loop, \<open>retrieve_natives\<close> and \<open>main\<close> all end with \<open>err\<close> in
  that very state \<open>w2\<close>, whatever entries follow: no later entry is fetched and
  \<open>copy2\<close> of the table is not run. Every file other than the temporary file of
  the failed entry is in \<open>w2\<close> what it was in \<open>w1\<close>, so the files of the earlier
  entries stay; the request log has grown by the one request of the failed entry at
  most.
\<close>

theorem C8_first_failure_aborts:
  assumes "out = joinpath (Path (output_dir args)) (Path ''natives'')"
    and "exists_path (mkdir out w) (Path (input args))"
    and "suffix (Path (input args)) = ''.csv''"
    and "files (mkdir out w) (Path (input args)) = Some content"
    and "parse_csv e content = Inr df"
    and "load_entries df = Inr (df', pdb_ids, ids)"
    and "zip pdb_ids ids = pre @ (Str s, ident) # post"
    and "entries_loop e out pre (mkdir out w) = (Inr (), w1)"
    and "download e s out w1 = (Inl err, w2)"
  shows "entries_loop e out (pre @ (Str s, ident) # post) (mkdir out w) = (Inl err, w2)
       \<and> retrieve_natives e (input args) out w = (Inl err, w2)
       \<and> main e args w = (Inl err, w2)
       \<and> (\<forall>q. q \<noteq> download_tmp (download_target out (upper s)) \<longrightarrow> files w2 q = files w1 q)
       \<and> (requests w2 = requests w1 \<or> requests w2 = requests w1 @ [download_url (upper s)])"
proof -
  have l: "entries_loop e out (pre @ (Str s, ident) # post) (mkdir out w) = (Inl err, w2)"
    by (simp add: entries_loop_append assms(8) assms(9))
  have r: "retrieve_natives e (input args) out w = (Inl err, w2)"
    using retrieve_natives_table[OF assms(2) assms(3) assms(4) assms(5) assms(6)]
    by (simp add: assms(7) l)
  have m: "main e args w = (Inl err, w2)"
    using r by (simp add: main_def Let_def assms(1)[symmetric])
  have f: "files w2 q = files w1 q" if "q \<noteq> download_tmp (download_target out (upper s))" for q
    using download_failure_files[of e s out w1 err q] that by (simp add: assms(9))
  have q: "requests w2 = requests w1 \<or> requests w2 = requests w1 @ [download_url (upper s)]"
    using download_requests[of e s out w1] by (simp add: assms(9))
  show ?thesis using l r m f q by blast
qed

theorem C8_first_failure_aborts_witness:
  "fst (main (table_env example_table) example_args table_world)
     = Inl (FileNotFoundError ''PDB entry 4HHB not found at RCSB.'')
   \<and> requests (snd (main (table_env example_table) example_args table_world))
     = [''https://files.rcsb.org/download/1CRN.pdb'', ''https://files.rcsb.org/download/4HHB.pdb'']
   \<and> files (snd (main (table_env example_table) example_args table_world))
        (PosixPath True [''tmp'', ''out'', ''natives'', ''1CRN.pdb'']) = Some example_body
   \<and> files (snd (main (table_env example_table) example_args table_world))
        (PosixPath True [''tmp'', ''out'', ''natives'', ''9XYZ.pdb'']) = None
   \<and> files (snd (main (table_env example_table) example_args table_world))
        (PosixPath True [''tmp'', ''out'', ''natives'', ''ids.csv'']) = None"
proof -
  let ?e = "table_env example_table"
  let ?w0 = "mkdir example_dir table_world"
  let ?w1 = "snd (download ?e ''1CRN'' example_dir ?w0)"
  let ?w2 = "snd (download ?e ''4HHB'' example_dir ?w1)"
  let ?err = "FileNotFoundError ''PDB entry 4HHB not found at RCSB.''"
  have out: "example_dir = joinpath (Path (output_dir example_args)) (Path ''natives'')"
    by (simp add: example_args_def example_out)
  have inp: "input example_args = ''ids.csv''" by (simp add: example_args_def)
  have pc: "parse_csv ?e [112, 100, 98] = Inr example_table" by (simp add: table_env_def)
  have z: "zip [Str ''1CRN'', Str ''4HHB'', Str ''9XYZ''] [Str ''1CRN'', Str ''4HHB'', Str ''9XYZ'']
           = [(Str ''1CRN'', Str ''1CRN'')] @ (Str ''4HHB'', Str ''4HHB'') # [(Str ''9XYZ'', Str ''9XYZ'')]"
    by simp
  have r1: "respond ?e (length (requests ?w0)) (download_url ''1CRN'') = Complete example_body"
    by (simp add: table_env_def download_url_def)
  note d1 = entries_step_upper(1)[OF fullmatch_1CRN upper_1CRN r1, of example_dir]
  have pre: "entries_loop ?e example_dir [(Str ''1CRN'', Str ''1CRN'')] ?w0 = (Inr (), ?w1)"
    using entries_step_upper(2)[OF fullmatch_1CRN upper_1CRN r1, of example_dir "[]"] by simp
  have q1: "requests ?w1 = [''https://files.rcsb.org/download/1CRN.pdb'']"
    unfolding d1 by (simp add: table_world_staged download_url_def)
  have r2: "respond ?e (length (requests ?w1)) (download_url (upper ''4HHB'')) = HttpFail 404"
    by (simp add: table_env_def download_url_def upper_4HHB)
  have f2: "fst (download ?e ''4HHB'' example_dir ?w1) = Inl ?err"
    using r2 by (simp add: download_cases[OF fullmatch_4HHB] Let_def upper_4HHB)
  then have d2: "download ?e ''4HHB'' example_dir ?w1 = (Inl ?err, ?w2)"
    by (simp add: prod_eq_iff)
  have q2: "requests ?w2 = requests ?w1 @ [download_url (upper ''4HHB'')]"
    using r2 by (simp add: download_cases[OF fullmatch_4HHB] Let_def)
  note c8 = C8_first_failure_aborts[OF out table_world_staged(2)[folded inp]
      suffix_ids_csv[folded inp] table_world_staged(1)[folded inp] pc load_example_table z pre d2]
  have tmp: "download_tmp (download_target example_dir (upper ''4HHB''))
             = PosixPath True [''tmp'', ''out'', ''natives'', ''4HHB.pdb.part'']"
    using tmp_of_code[OF fullmatch_4HHB, of True "[''tmp'', ''out'', ''natives'']"]
    by (simp add: upper_4HHB target_of_code[OF fullmatch_4HHB] example_dir_def)
  from c8 have m: "main ?e example_args table_world = (Inl ?err, ?w2)" by blast
  from c8 have keep: "\<forall>q. q \<noteq> PosixPath True [''tmp'', ''out'', ''natives'', ''4HHB.pdb.part'']
                       \<longrightarrow> files ?w2 q = files ?w1 q"
    unfolding tmp by blast
  have a1: "files ?w1 (PosixPath True [''tmp'', ''out'', ''natives'', ''1CRN.pdb'']) = Some example_body"
    unfolding d1 by (simp add: example_dir_def)
  have b1: "files ?w1 (PosixPath True [''tmp'', ''out'', ''natives'', ''9XYZ.pdb'']) = None"
    unfolding d1 by (simp add: example_dir_def files_mkdir table_world_def)
  have c1: "files ?w1 (PosixPath True [''tmp'', ''out'', ''natives'', ''ids.csv'']) = None"
    unfolding d1 by (simp add: example_dir_def files_mkdir table_world_def)
  have a: "files ?w2 (PosixPath True [''tmp'', ''out'', ''natives'', ''1CRN.pdb'']) = Some example_body"
    using keep a1 by simp
  have b: "files ?w2 (PosixPath True [''tmp'', ''out'', ''natives'', ''9XYZ.pdb'']) = None"
    using keep b1 by simp
  have c: "files ?w2 (PosixPath True [''tmp'', ''out'', ''natives'', ''ids.csv'']) = None"
    using keep c1 by simp
  show ?thesis
    unfolding m using a b c q2 q1 by (simp add: upper_4HHB download_url_def)
qed

subsection \<open>C9: the option name\<close>

text \<open>
  C9. \<open>main\<close> never reads the field \<open>name\<close> of the namespace: two runs that differ
  in it only, from the same world and against the same environment, end with the same
  result in the same world (the same directories, the same files under the same
  paths, the same requests). The output directory is \<open><output_dir>/natives\<close> with
  the literal \<open>natives\<close>.
\<close>

theorem C9_name_flag_unused:
  "main e (args\<lparr>name := n1\<rparr>) w = main e (args\<lparr>name := n2\<rparr>) w"
  by (simp add: main_def Let_def split: prod.splits sum.splits)

theorem C9_name_flag_unused_witness:
  "main (table_env example_table) (example_args\<lparr>name := ''elsewhere''\<rparr>) table_world
     = main (table_env example_table) (example_args\<lparr>name := ''natives''\<rparr>) table_world
   \<and> example_args\<lparr>name := ''natives''\<rparr> = example_args"
  using C9_name_flag_unused[where e = "table_env example_table" and args = example_args
      and ?n1.0 = "''elsewhere''" and w = table_world and ?n2.0 = "''natives''"]
  by (simp add: example_args_def)

subsection \<open>C10: a code with a lower-case letter in the table\<close>

text \<open>
  A well-formed code is changed by \<open>upper\<close> exactly when it has a lower-case letter.
\<close>

lemma upper_changes_iff:
  "upper s \<noteq> s \<longleftrightarrow> (\<exists>c \<in> set s. 97 \<le> (of_char c :: nat) \<and> (of_char c :: nat) \<le> 122)"
proof -
  have "upper_char c = c \<longleftrightarrow> \<not> (97 \<le> (of_char c :: nat) \<and> (of_char c :: nat) \<le> 122)" for c
  proof (cases "97 \<le> (of_char c :: nat) \<and> (of_char c :: nat) \<le> 122")
    case True
    then have "(of_char c - 32 :: nat) < 256" by arith
    then have "(of_char c - 32 :: nat) mod 256 = of_char c - 32" by simp
    with True have "(of_char (upper_char c) :: nat) = of_char c - 32"
      by (simp add: upper_char_def Let_def)
    with True have "(of_char (upper_char c) :: nat) \<noteq> of_char c" by arith
    then have "upper_char c \<noteq> c" by auto
    with True show ?thesis by simp
  next
    case False
    then show ?thesis by (auto simp: upper_char_def Let_def)
  qed
  then show ?thesis
    unfolding upper_def by (induction s) auto
qed




end
